theory Spec2Isabelle
  imports Complex_Main "HOL-Library.AList" "HOL-Library.Monad_Syntax"
begin

section \<open>JavaScript values\<close>

text \<open>
  The collection read back from \<open>localStorage\<close> and the payload of a gateway response
  are results of \<open>JSON.parse\<close> and are handled under the type \<open>any\<close>. They are modelled
  as JavaScript values. A number is an IEEE double: a finite one is a rational, and the
  three other values are constructors of their own. A string is the list of its code
  units, one \<open>char\<close> each. An object is the list of its own enumerable properties in
  property order; its keys are pairwise distinct in every object that JavaScript
  builds, and the operations below keep them so.
\<close>

datatype number = Finite rat | NaN | Infinity | NegInfinity

datatype jsval =
    JUndefined
  | JNull
  | JBool bool
  | JNum number
  | JStr string
  | JArr "jsval list"
  | JObj "(string \<times> jsval) list"

text \<open>\<open>ToBoolean\<close>: what \<open>a || b\<close> and \<open>c ? a : b\<close> test.\<close>

fun truthy :: "jsval \<Rightarrow> bool" where
  "truthy JUndefined = False"
| "truthy JNull = False"
| "truthy (JBool b) = b"
| "truthy (JNum n) = (n \<noteq> Finite 0 \<and> n \<noteq> NaN)"
| "truthy (JStr s) = (s \<noteq> [])"
| "truthy (JArr xs) = True"
| "truthy (JObj ps) = True"

text \<open>\<open>a || b\<close>, for operands whose evaluation has no effect.\<close>

definition or_else :: "jsval \<Rightarrow> jsval \<Rightarrow> jsval" where
  "or_else a b = (if truthy a then a else b)"

text \<open>The decimal name of an array index, as a property key.\<close>

definition digitChar :: "nat \<Rightarrow> char" where
  "digitChar d = ''0123456789'' ! d"

fun indexKey :: "nat \<Rightarrow> string" where
  "indexKey n = (if n < 10 then [digitChar n] else indexKey (n div 10) @ [digitChar (n mod 10)])"

text \<open>
  The own enumerable properties of a value, which the spread \<open>{...v}\<close> copies: those of
  an object; the elements of an array and the code units of a string under their
  indices; none for \<open>undefined\<close>, \<open>null\<close>, a boolean or a number.
\<close>

fun ownProps :: "jsval \<Rightarrow> (string \<times> jsval) list" where
  "ownProps (JObj ps) = ps"
| "ownProps (JArr xs) = zip (map indexKey [0..<length xs]) xs"
| "ownProps (JStr s) = zip (map indexKey [0..<length s]) (map (\<lambda>c. JStr [c]) s)"
| "ownProps v = []"

text \<open>
  Defining a property in an object literal: an existing key keeps its place and takes
  the new value, a new key goes last. (The names this program defines are never array
  indices, which JavaScript would order first.)
\<close>

definition setProp :: "string \<Rightarrow> jsval \<Rightarrow> (string \<times> jsval) list \<Rightarrow> (string \<times> jsval) list" where
  "setProp k v ps = AList.update k v ps"

text \<open>\<open>{...v}\<close> inside an object literal whose properties so far are \<open>ps\<close>.\<close>

definition spread :: "jsval \<Rightarrow> (string \<times> jsval) list \<Rightarrow> (string \<times> jsval) list" where
  "spread v ps = foldl (\<lambda>acc (k, x). setProp k x acc) ps (ownProps v)"

text \<open>
  The read \<open>v.k\<close>. It throws a \<open>TypeError\<close> (\<open>None\<close>) on \<open>undefined\<close> and \<open>null\<close>, and
  yields \<open>undefined\<close> for a property the value does not have. The program reads only
  the names \<open>imageUrls\<close>, \<open>imageUrl\<close>, \<open>marketData\<close>, \<open>pros\<close>, \<open>cons\<close>, \<open>currency\<close>,
  \<open>priceSource\<close> and \<open>sources\<close> this way, none of which a prototype supplies.
\<close>

fun getProp :: "jsval \<Rightarrow> string \<Rightarrow> jsval option" where
  "getProp JUndefined k = None"
| "getProp JNull k = None"
| "getProp v k = Some (case map_of (ownProps v) k of None \<Rightarrow> JUndefined | Some x \<Rightarrow> x)"

section \<open>Collection Store: the migration on load\<close>

text \<open>
  \<^verbatim>\<open>
  const migratedData = parsedData.map((item: any) => ({
    ...item,
    imageUrls: item.imageUrls || (item.imageUrl ? [item.imageUrl] : []),
    marketData: {
      ...item.marketData,
      pros: item.marketData.pros || [],
      cons: item.marketData.cons || [],
      currency: item.marketData.currency || 'HKD',
      priceSource: item.marketData.priceSource || 'Market Data'
    }
  }));
  \<close>
  The callback of \<open>map\<close>, with \<open>None\<close> for the \<open>TypeError\<close> of a read on \<open>undefined\<close> or
  \<open>null\<close>. The surrounding \<open>try\<close> catches it, and the collection is then not set.
\<close>

definition migrateImageUrls :: "jsval \<Rightarrow> jsval option" where
  "migrateImageUrls item =
     do {
       imageUrls \<leftarrow> getProp item ''imageUrls'';
       if truthy imageUrls then Some imageUrls
       else do {
         imageUrl \<leftarrow> getProp item ''imageUrl'';
         Some (if truthy imageUrl then JArr [imageUrl] else JArr [])
       }
     }"

definition migrateMarketData :: "jsval \<Rightarrow> jsval option" where
  "migrateMarketData item =
     do {
       marketData \<leftarrow> getProp item ''marketData'';
       pros \<leftarrow> getProp marketData ''pros'';
       cons \<leftarrow> getProp marketData ''cons'';
       currency \<leftarrow> getProp marketData ''currency'';
       priceSource \<leftarrow> getProp marketData ''priceSource'';
       Some (JObj
         (setProp ''priceSource'' (or_else priceSource (JStr ''Market Data''))
         (setProp ''currency'' (or_else currency (JStr ''HKD''))
         (setProp ''cons'' (or_else cons (JArr []))
         (setProp ''pros'' (or_else pros (JArr []))
         (spread marketData []))))))
     }"

definition migrateItem :: "jsval \<Rightarrow> jsval option" where
  "migrateItem item =
     do {
       imageUrls \<leftarrow> migrateImageUrls item;
       marketData \<leftarrow> migrateMarketData item;
       Some (JObj
         (setProp ''marketData'' marketData
         (setProp ''imageUrls'' imageUrls
         (spread item []))))
     }"

text \<open>
  \<open>parsedData.map(...)\<close>: only an array has the method \<open>map\<close>; on any other parsed
  value the call throws.
\<close>

fun migratedData :: "jsval \<Rightarrow> jsval option" where
  "migratedData (JArr items) = map_option JArr (those (map migrateItem items))"
| "migratedData v = None"

text \<open>
  What the migration establishes, as predicates on its output: a property present with a
  truthy value; the shape of a migrated \<open>marketData\<close>; the shape of a migrated record.
  \<open>hasMarketData\<close> is the condition under which the callback does not throw.
\<close>

definition hasTruthy :: "(string \<times> jsval) list \<Rightarrow> string \<Rightarrow> bool" where
  "hasTruthy ps k = (case map_of ps k of None \<Rightarrow> False | Some v \<Rightarrow> truthy v)"

definition marketMigrated :: "jsval \<Rightarrow> bool" where
  "marketMigrated m =
     (case m of
        JObj ps \<Rightarrow> distinct (map fst ps) \<and> hasTruthy ps ''pros'' \<and> hasTruthy ps ''cons'' \<and>
          hasTruthy ps ''currency'' \<and> hasTruthy ps ''priceSource''
      | _ \<Rightarrow> False)"

definition itemMigrated :: "jsval \<Rightarrow> bool" where
  "itemMigrated r =
     (case r of
        JObj ps \<Rightarrow> distinct (map fst ps) \<and> hasTruthy ps ''imageUrls'' \<and>
          (case map_of ps ''marketData'' of None \<Rightarrow> False | Some m \<Rightarrow> marketMigrated m)
      | _ \<Rightarrow> False)"

definition hasMarketData :: "jsval \<Rightarrow> bool" where
  "hasMarketData item =
     (case getProp item ''marketData'' of
        None \<Rightarrow> False
      | Some m \<Rightarrow> m \<noteq> JUndefined \<and> m \<noteq> JNull)"

section \<open>Data model (types.ts)\<close>

text \<open>
  \<open>WatchIdentity\<close> as declared. \<open>bestImageIndex\<close> is optional; \<open>None\<close> is its absence.
\<close>

record WatchIdentity =
  brand :: string
  model :: string
  referenceNumber :: string
  estimatedYear :: string
  confidence :: number
  description :: string
  bestImageIndex :: "number option"

text \<open>
  \<open>AppraisalReport\<close>; the fields \<open>id\<close>, \<open>date\<close>, \<open>imageUrls\<close>, \<open>purchasePrice\<close>, \<open>identity\<close>
  and \<open>marketData\<close> carry the prefix \<open>report_\<close> here. An image is a JavaScript value (a
  data URL string, or \<open>undefined\<close> where an array was read outside its indices). The
  market data is the object that \<open>getMarketValuation\<close> returns: the parsed response with
  two properties set, under the declared type \<open>MarketData\<close> but never checked against
  it, so it stays a JavaScript value.
\<close>

record AppraisalReport =
  report_id :: string
  report_date :: string
  report_imageUrls :: "jsval list"
  report_purchasePrice :: number
  report_identity :: WatchIdentity
  report_marketData :: jsval

datatype AppState =
    IDLE
  | ANALYZING_IMAGE
  | IDENTITY_CONFIRMED
  | SEARCHING_MARKET
  | REPORT_READY
  | VIEWING_COLLECTION
  | VIEWING_COLLECTION_DETAIL
  | ERROR

section \<open>The two gateways (services/geminiService.ts)\<close>

text \<open>
  The response of \<open>ai.models.generateContent\<close>, as far as the program reads it:
  \<open>response.text\<close> and \<open>response.candidates?.[0]?.groundingMetadata?.groundingChunks\<close>,
  each chunk with an optional \<open>web\<close> of \<open>title\<close> and \<open>uri\<close>. An optional member is an
  \<open>option\<close>.
\<close>

record Web =
  title :: jsval
  uri :: jsval

record GroundingChunk =
  web :: "Web option"

record GroundingMetadata =
  groundingChunks :: "GroundingChunk list option"

record Candidate =
  groundingMetadata :: "GroundingMetadata option"

record GenerateContentResponse =
  responseText :: "string option"
  candidates :: "Candidate list option"

text \<open>
  The three fixed notices hold Chinese text and are written by their UTF-8 bytes. The
  program only passes them on and tests them for emptiness.
\<close>

definition visionErrorMessage :: string where
  "visionErrorMessage =
     [CHR 0xE7, CHR 0x84, CHR 0xA1, CHR 0xE6, CHR 0xB3, CHR 0x95, CHR 0xE8, CHR 0xAD, CHR 0x98,
      CHR 0xE5, CHR 0x88, CHR 0xA5, CHR 0xE5, CHR 0x9C, CHR 0x96, CHR 0xE7, CHR 0x89, CHR 0x87,
      CHR 0xE4, CHR 0xB8, CHR 0xAD, CHR 0xE7, CHR 0x9A, CHR 0x84, CHR 0xE6, CHR 0x89, CHR 0x8B,
      CHR 0xE9, CHR 0x8C, CHR 0xB6, CHR 0xEF, CHR 0xBC, CHR 0x8C, CHR 0xE8, CHR 0xAB, CHR 0x8B,
      CHR 0xE7, CHR 0xA2, CHR 0xBA, CHR 0xE4, CHR 0xBF, CHR 0x9D, CHR 0xE5, CHR 0x9C, CHR 0x96,
      CHR 0xE7, CHR 0x89, CHR 0x87, CHR 0xE6, CHR 0xB8, CHR 0x85, CHR 0xE6, CHR 0x99, CHR 0xB0,
      CHR 0xE3, CHR 0x80, CHR 0x82]"

definition marketErrorMessage :: string where
  "marketErrorMessage =
     [CHR 0xE7, CHR 0x84, CHR 0xA1, CHR 0xE6, CHR 0xB3, CHR 0x95, CHR 0xE7, CHR 0x8D, CHR 0xB2,
      CHR 0xE5, CHR 0x8F, CHR 0x96, CHR 0xE5, CHR 0xB8, CHR 0x82, CHR 0xE5, CHR 0xA0, CHR 0xB4,
      CHR 0xE6, CHR 0x95, CHR 0xB8, CHR 0xE6, CHR 0x93, CHR 0x9A, CHR 0xEF, CHR 0xBC, CHR 0x8C,
      CHR 0xE8, CHR 0xAB, CHR 0x8B, CHR 0xE7, CHR 0xA8, CHR 0x8D, CHR 0xE5, CHR 0xBE, CHR 0x8C,
      CHR 0xE5, CHR 0x86, CHR 0x8D, CHR 0xE8, CHR 0xA9, CHR 0xA6, CHR 0xE3, CHR 0x80, CHR 0x82]"

definition maxPhotosNotice :: string where
  "maxPhotosNotice =
     [CHR 0xE6, CHR 0x9C, CHR 0x80, CHR 0xE5, CHR 0xA4, CHR 0x9A, CHR 0xE5, CHR 0x8F, CHR 0xAA,
      CHR 0xE8, CHR 0x83, CHR 0xBD, CHR 0xE4, CHR 0xB8, CHR 0x8A, CHR 0xE5, CHR 0x82, CHR 0xB3,
      CHR 0x20, CHR 0x33, CHR 0x20, CHR 0xE5, CHR 0xBC, CHR 0xB5, CHR 0xE7, CHR 0x85, CHR 0xA7,
      CHR 0xE7, CHR 0x89, CHR 0x87] @ '' (Max 3 photos allowed)''"

text \<open>
  \<open>identifyWatchFromImage\<close>. The gateway is a parameter: it maps the images sent to
  the response, or to \<open>None\<close> when the call is rejected. \<open>parseIdentity\<close> is
  \<open>JSON.parse\<close> followed by the cast to \<open>WatchIdentity\<close>, \<open>None\<close> when \<open>JSON.parse\<close>
  throws. Whatever is thrown inside the \<open>try\<close> is replaced by the fixed message
  (\<open>Inl\<close>).
\<close>

definition identifyWatchFromImage ::
  "(jsval list \<Rightarrow> GenerateContentResponse option) \<Rightarrow> (string \<Rightarrow> WatchIdentity option) \<Rightarrow>
   jsval list \<Rightarrow> string + WatchIdentity" where
  "identifyWatchFromImage generateContent parseIdentity imagesBase64 =
     (case generateContent imagesBase64 of
        None \<Rightarrow> Inl visionErrorMessage
      | Some response \<Rightarrow>
          (case responseText response of
             None \<Rightarrow> Inl visionErrorMessage
           | Some t \<Rightarrow>
               if t \<noteq> [] then
                 (case parseIdentity t of
                    None \<Rightarrow> Inl visionErrorMessage
                  | Some result \<Rightarrow> Inr result)
               else Inl visionErrorMessage))"

text \<open>
  \<^verbatim>\<open>
  const sources = response.candidates?.[0]?.groundingMetadata?.groundingChunks
    ?.map((chunk: any) => chunk.web ? { title: chunk.web.title, uri: chunk.web.uri } : null)
    .filter((s: any) => s !== null) || [];
  \<close>
\<close>

definition chunkSource :: "GroundingChunk \<Rightarrow> jsval" where
  "chunkSource chunk =
     (case web chunk of
        Some w \<Rightarrow> JObj [(''title'', title w), (''uri'', uri w)]
      | None \<Rightarrow> JNull)"

definition sources :: "GenerateContentResponse \<Rightarrow> jsval list" where
  "sources response =
     (case candidates response of
        None \<Rightarrow> []
      | Some [] \<Rightarrow> []
      | Some (c # cs) \<Rightarrow>
          (case groundingMetadata c of
             None \<Rightarrow> []
           | Some gm \<Rightarrow>
               (case groundingChunks gm of
                  None \<Rightarrow> []
                | Some chunks \<Rightarrow> filter (\<lambda>s. s \<noteq> JNull) (map chunkSource chunks))))"

text \<open>
  \<open>getMarketValuation\<close>. The gateway maps the identity and the target currency of
  the query to the response, or to \<open>None\<close> when the call is rejected; \<open>parse\<close> is
  \<open>JSON.parse\<close>, \<open>None\<close> when it throws. The parameter \<open>currency\<close> has the default
  \<open>'HKD'\<close>. The list of required fields is part of the response schema sent to the
  gateway; the function itself reads no field of the parsed data.
  \<^verbatim>\<open>
  if (response.text) {
    const data = JSON.parse(response.text);
    return { ...data, currency: currency, sources: sources.slice(0, 5) };
  }
  throw new Error("No market data returned.");
  \<close>
\<close>

definition getMarketValuation ::
  "(WatchIdentity \<Rightarrow> string \<Rightarrow> GenerateContentResponse option) \<Rightarrow> (string \<Rightarrow> jsval option) \<Rightarrow>
   WatchIdentity \<Rightarrow> number \<Rightarrow> string option \<Rightarrow> string + jsval" where
  "getMarketValuation generateContent parse ident price currencyArg =
     (let currency = (case currencyArg of None \<Rightarrow> ''HKD'' | Some c \<Rightarrow> c) in
      case generateContent ident currency of
        None \<Rightarrow> Inl marketErrorMessage
      | Some response \<Rightarrow>
          (case responseText response of
             None \<Rightarrow> Inl marketErrorMessage
           | Some t \<Rightarrow>
               if t \<noteq> [] then
                 (case parse t of
                    None \<Rightarrow> Inl marketErrorMessage
                  | Some data \<Rightarrow>
                      Inr (JObj
                        (setProp ''sources'' (JArr (take 5 (sources response)))
                        (setProp ''currency'' (JStr currency)
                        (spread data [])))))
               else Inl marketErrorMessage))"

section \<open>The application (App.tsx)\<close>

text \<open>
  The state variables of the component \<open>App\<close>, and with them what its handlers reach
  outside it: the slots of \<open>localStorage\<close>, the notices shown by \<open>alert\<close>, and the calls
  made to the two gateways (the argument of each call, in order).
\<close>

record App =
  state :: AppState
  images :: "jsval list"
  purchasePrice :: string
  currency :: string
  identity :: "WatchIdentity option"
  marketData :: "jsval option"
  report :: "AppraisalReport option"
  error :: "string option"
  collection :: "AppraisalReport list"
  localStorage :: "string \<rightharpoonup> string"
  alerts :: "string list"
  identifyCalls :: "jsval list list"
  valuationCalls :: "(WatchIdentity \<times> string) list"

text \<open>The initial values given to \<open>useState\<close>, over a given storage.\<close>

definition initialApp :: "(string \<rightharpoonup> string) \<Rightarrow> App" where
  "initialApp storage =
     \<lparr> state = IDLE, images = [], purchasePrice = [], currency = ''HKD'', identity = None,
       marketData = None, report = None, error = None, collection = [],
       localStorage = storage, alerts = [], identifyCalls = [], valuationCalls = [] \<rparr>"

subsection \<open>Collection Store\<close>

text \<open>
  \<open>saveCollection\<close>: \<open>stringify\<close> is \<open>JSON.stringify\<close> on collections, a parameter. The
  write \<open>localStorage.setItem\<close> is taken to succeed; the source does not handle its
  failure.
\<close>

definition saveCollection :: "(AppraisalReport list \<Rightarrow> string) \<Rightarrow> AppraisalReport list \<Rightarrow> App \<Rightarrow> App" where
  "saveCollection stringify newCollection s =
     s\<lparr> collection := newCollection,
        localStorage := (localStorage s)(''horology_collection'' \<mapsto> stringify newCollection) \<rparr>"

definition handleSaveToCollection :: "(AppraisalReport list \<Rightarrow> string) \<Rightarrow> AppraisalReport \<Rightarrow> App \<Rightarrow> App" where
  "handleSaveToCollection stringify newReport s =
     (if list_ex (\<lambda>item. report_id item = report_id newReport) (collection s) then s
      else saveCollection stringify (newReport # collection s) s)"

definition handleDeleteFromCollection :: "(AppraisalReport list \<Rightarrow> string) \<Rightarrow> string \<Rightarrow> App \<Rightarrow> App" where
  "handleDeleteFromCollection stringify rid s =
     saveCollection stringify (filter (\<lambda>item. report_id item \<noteq> rid) (collection s)) s"

definition handleSelectFromCollection :: "AppraisalReport \<Rightarrow> App \<Rightarrow> App" where
  "handleSelectFromCollection selectedReport s =
     s\<lparr> report := Some selectedReport, state := VIEWING_COLLECTION_DETAIL \<rparr>"

subsection \<open>Navigation and reset\<close>

definition resetApp :: "App \<Rightarrow> App" where
  "resetApp s =
     s\<lparr> state := IDLE, images := [], purchasePrice := [], identity := None,
        marketData := None, report := None, error := None \<rparr>"

datatype view = Home | Collection

fun handleNavigate :: "view \<Rightarrow> App \<Rightarrow> App" where
  "handleNavigate Collection s = s\<lparr> state := VIEWING_COLLECTION \<rparr>"
| "handleNavigate Home s =
     (if state s = VIEWING_COLLECTION \<or> state s = VIEWING_COLLECTION_DETAIL then
        (if report s \<noteq> None \<and> state s \<noteq> VIEWING_COLLECTION_DETAIL then
           s\<lparr> state := REPORT_READY \<rparr>
         else if identity s \<noteq> None \<and> state s \<noteq> VIEWING_COLLECTION_DETAIL then
           s\<lparr> state := IDENTITY_CONFIRMED \<rparr>
         else resetApp s)
      else s)"

subsection \<open>Image intake and identification\<close>

text \<open>
  The comparisons of \<open>analyzeImage\<close> on a number: \<open>n >= 0\<close>, \<open>n < xs.length\<close>, the read
  \<open>xs[n]\<close> (\<open>undefined\<close> unless \<open>n\<close> is an index of \<open>xs\<close>) and \<open>i !== n\<close> for an index \<open>i\<close>.
\<close>

fun geZero :: "number \<Rightarrow> bool" where
  "geZero (Finite q) = (0 \<le> q)"
| "geZero Infinity = True"
| "geZero n = False"

fun lessThanLength :: "number \<Rightarrow> 'a list \<Rightarrow> bool" where
  "lessThanLength (Finite q) xs = (q < of_nat (length xs))"
| "lessThanLength NegInfinity xs = True"
| "lessThanLength n xs = False"

fun arrayAt :: "jsval list \<Rightarrow> number \<Rightarrow> jsval" where
  "arrayAt xs (Finite q) =
     (if q = of_int \<lfloor>q\<rfloor> \<and> 0 \<le> q \<and> nat \<lfloor>q\<rfloor> < length xs then xs ! nat \<lfloor>q\<rfloor> else JUndefined)"
| "arrayAt xs n = JUndefined"

definition indexDiffers :: "nat \<Rightarrow> number \<Rightarrow> bool" where
  "indexDiffers i n = (n \<noteq> Finite (of_nat i))"

text \<open>
  \<^verbatim>\<open>
  if (currentFullImages && typeof result.bestImageIndex === 'number'
      && result.bestImageIndex >= 0 && result.bestImageIndex < currentFullImages.length) {
     const bestImg = currentFullImages[result.bestImageIndex];
     const otherImages = currentFullImages.filter((_, i) => i !== result.bestImageIndex);
     const sortedImages = [bestImg, ...otherImages];
     setImages(sortedImages);
  }
  \<close>
  \<open>sortedImages\<close> is the list handed to \<open>setImages\<close>, \<open>None\<close> when the condition fails
  and \<open>setImages\<close> is not called.
\<close>

definition otherImages :: "jsval list \<Rightarrow> number \<Rightarrow> jsval list" where
  "otherImages currentFullImages n =
     map snd (filter (\<lambda>(i, img). indexDiffers i n) (enumerate 0 currentFullImages))"

definition sortedImages :: "jsval list option \<Rightarrow> number option \<Rightarrow> jsval list option" where
  "sortedImages currentFullImages best =
     (case currentFullImages of
        None \<Rightarrow> None
      | Some full \<Rightarrow>
          (case best of
             None \<Rightarrow> None
           | Some n \<Rightarrow>
               if geZero n \<and> lessThanLength n full
               then Some (arrayAt full n # otherImages full n)
               else None))"

text \<open>
  \<open>analyzeImage\<close>, from the call to the state once the awaited gateway call has
  settled; \<open>ANALYZING_IMAGE\<close> is the state in between.
\<close>

definition analyzeImage ::
  "(jsval list \<Rightarrow> GenerateContentResponse option) \<Rightarrow> (string \<Rightarrow> WatchIdentity option) \<Rightarrow>
   jsval list \<Rightarrow> jsval list option \<Rightarrow> App \<Rightarrow> App" where
  "analyzeImage generateContent parseIdentity base64Images currentFullImages s =
     (let s1 = s\<lparr> state := ANALYZING_IMAGE, error := None,
                  identifyCalls := identifyCalls s @ [base64Images] \<rparr> in
      case identifyWatchFromImage generateContent parseIdentity base64Images of
        Inr result \<Rightarrow>
          s1\<lparr> images :=
                (case sortedImages currentFullImages (bestImageIndex result) of
                   Some reordered \<Rightarrow> reordered
                 | None \<Rightarrow> images s1),
              identity := Some result,
              state := IDENTITY_CONFIRMED \<rparr>
      | Inl message \<Rightarrow>
          s1\<lparr> error := Some (if message \<noteq> [] then message else ''Failed to identify image''),
              state := ERROR \<rparr>)"

text \<open>\<open>s.split(c)\<close> for a one-character separator.\<close>

fun splitOn :: "char \<Rightarrow> string \<Rightarrow> string list" where
  "splitOn c [] = [[]]"
| "splitOn c (x # xs) =
     (if x = c then [] # splitOn c xs
      else (case splitOn c xs of
              [] \<Rightarrow> [[x]]
            | p # ps \<Rightarrow> (x # p) # ps))"

text \<open>
  \<open>img.split(',')[1]\<close>: the data after the prefix of a data URL, \<open>undefined\<close> when
  there is no comma. \<open>None\<close> is the \<open>TypeError\<close> of \<open>split\<close> on a value that is not a
  string.
\<close>

fun rawBase64 :: "jsval \<Rightarrow> jsval option" where
  "rawBase64 (JStr img) =
     Some (case splitOn CHR '','' img of
             p # q # ps \<Rightarrow> JStr q
           | _ \<Rightarrow> JUndefined)"
| "rawBase64 v = None"

text \<open>
  \<open>handleImageUpload\<close>, from the change event to the state once all files are read and
  the identification has settled. \<open>files\<close> is \<open>e.target.files\<close> (\<open>None\<close> for \<open>null\<close>);
  \<open>readAsDataURL\<close> maps a file to the result of its \<open>FileReader\<close>. An exception in
  the callback of \<open>Promise.all\<close> is not caught: the state stays as \<open>setImages\<close> left it.
\<close>

definition handleImageUpload ::
  "(jsval list \<Rightarrow> GenerateContentResponse option) \<Rightarrow> (string \<Rightarrow> WatchIdentity option) \<Rightarrow>
   ('file \<Rightarrow> jsval) \<Rightarrow> 'file list option \<Rightarrow> App \<Rightarrow> App" where
  "handleImageUpload generateContent parseIdentity readAsDataURL files s =
     (case files of
        None \<Rightarrow> s
      | Some fileArray \<Rightarrow>
          if length fileArray > 0 then
            (if length fileArray > 3 then s\<lparr> alerts := alerts s @ [maxPhotosNotice] \<rparr>
             else
               (let base64Images = map readAsDataURL fileArray;
                    s1 = s\<lparr> images := base64Images \<rparr> in
                case those (map rawBase64 base64Images) of
                  None \<Rightarrow> s1
                | Some rawBase64s \<Rightarrow>
                    analyzeImage generateContent parseIdentity rawBase64s (Some base64Images) s1))
          else s)"

subsection \<open>Valuation and report assembly\<close>

text \<open>
  \<open>handleAppraisal\<close>, from the click to the state once the awaited gateway call has
  settled; \<open>SEARCHING_MARKET\<close> is the state in between. \<open>parseFloat\<close>, the fresh
  \<open>crypto.randomUUID()\<close> and the date string of the day are parameters.
\<close>

definition handleAppraisal ::
  "(WatchIdentity \<Rightarrow> string \<Rightarrow> GenerateContentResponse option) \<Rightarrow> (string \<Rightarrow> jsval option) \<Rightarrow>
   (string \<Rightarrow> number) \<Rightarrow> string \<Rightarrow> string \<Rightarrow> App \<Rightarrow> App" where
  "handleAppraisal generateContent parse parseFloat randomUUID today s =
     (case identity s of
        None \<Rightarrow> s
      | Some ident \<Rightarrow>
          if purchasePrice s = [] then s
          else
            (let s1 = s\<lparr> state := SEARCHING_MARKET,
                         valuationCalls := valuationCalls s @ [(ident, currency s)] \<rparr>;
                 priceNum = parseFloat (purchasePrice s) in
             case getMarketValuation generateContent parse ident priceNum (Some (currency s)) of
               Inr data \<Rightarrow>
                 s1\<lparr> marketData := Some data,
                     report := Some \<lparr> report_id = randomUUID, report_date = today,
                                      report_imageUrls = images s, report_purchasePrice = priceNum,
                                      report_identity = ident, report_marketData = data \<rparr>,
                     state := REPORT_READY \<rparr>
             | Inl message \<Rightarrow>
                 s1\<lparr> error := Some (if message \<noteq> [] then message else ''Failed to fetch market data''),
                     state := ERROR \<rparr>))"

text \<open>
  The data that a valuation rests on: the parsed text of the response, \<open>None\<close> when the
  call is rejected, when the response has no text or an empty one, or when the text is
  not JSON. These are the paths of \<open>getMarketValuation\<close> that end in its \<open>catch\<close>.
\<close>

definition parsedResponse ::
  "(WatchIdentity \<Rightarrow> string \<Rightarrow> GenerateContentResponse option) \<Rightarrow> (string \<Rightarrow> jsval option) \<Rightarrow>
   WatchIdentity \<Rightarrow> string \<Rightarrow> jsval option" where
  "parsedResponse generateContent parse ident cur =
     (case generateContent ident cur of
        None \<Rightarrow> None
      | Some response \<Rightarrow>
          (case responseText response of
             None \<Rightarrow> None
           | Some t \<Rightarrow> if t \<noteq> [] then parse t else None))"

text \<open>
  The fields that the response schema of the valuation request lists as \<open>required\<close>,
  and the test that parsed data lacks one of them.
\<close>

definition requiredFields :: "string list" where
  "requiredFields =
     [''averagePrice'', ''currency'', ''history'', ''reviewsSummary'', ''pros'', ''cons'',
      ''priceSource'']"

definition missesRequired :: "jsval \<Rightarrow> bool" where
  "missesRequired data =
     list_ex (\<lambda>k. case getProp data k of None \<Rightarrow> True | Some v \<Rightarrow> v = JUndefined) requiredFields"

section \<open>The specification's wording of the way home\<close>

text \<open>
  The state after navigating home from the collection or a detail view, as the
  specification words it: ReportReady if a report is active and the state is not the
  detail view, else IdentityConfirmed if an identity is active, else Idle. It is
  compared with \<open>handleNavigate\<close> below.
\<close>

definition navigateHomeAsSpecified :: "App \<Rightarrow> AppState" where
  "navigateHomeAsSpecified s =
     (if report s \<noteq> None \<and> state s \<noteq> VIEWING_COLLECTION_DETAIL then REPORT_READY
      else if identity s \<noteq> None then IDENTITY_CONFIRMED
      else IDLE)"

section \<open>Sample data\<close>

definition sampleIdentity :: WatchIdentity where
  "sampleIdentity =
     \<lparr> brand = ''Omega'', model = ''Speedmaster'', referenceNumber = [], estimatedYear = [],
       confidence = Finite 90, description = ''x'', bestImageIndex = Some (Finite 1) \<rparr>"

text \<open>
  An identification gateway that answers with the JSON text of \<open>sampleIdentity\<close>, its
  \<open>bestImageIndex\<close> replaced by the given digits, and what \<open>JSON.parse\<close> makes of that
  text for the digits 1 and 5.
\<close>

definition sampleIdentityText :: "string \<Rightarrow> string" where
  "sampleIdentityText k =
     ''{\"brand\":\"Omega\",\"model\":\"Speedmaster\",\"referenceNumber\":\"\",'' @
     ''\"estimatedYear\":\"\",\"confidence\":90,\"description\":\"x\",\"bestImageIndex\":'' @
     k @ ''}''"

definition sampleIdentify :: "string \<Rightarrow> jsval list \<Rightarrow> GenerateContentResponse option" where
  "sampleIdentify k imagesBase64 =
     Some \<lparr> responseText = Some (sampleIdentityText k), candidates = None \<rparr>"

definition sampleParseIdentity :: "string \<Rightarrow> WatchIdentity option" where
  "sampleParseIdentity t =
     (if t = sampleIdentityText ''1'' then Some sampleIdentity
      else if t = sampleIdentityText ''5''
        then Some (sampleIdentity\<lparr> bestImageIndex := Some (Finite 5) \<rparr>)
      else None)"

definition sampleReport :: "string \<Rightarrow> AppraisalReport" where
  "sampleReport rid =
     \<lparr> report_id = rid, report_date = ''30/1/2024'', report_imageUrls = [JStr ''data:,a''],
       report_purchasePrice = Finite 50000, report_identity = sampleIdentity,
       report_marketData = JObj [(''averagePrice'', JNum (Finite 60000)),
                                 (''currency'', JStr ''HKD'')] \<rparr>"

definition sampleSource :: "string \<Rightarrow> GroundingChunk" where
  "sampleSource t = \<lparr> web = Some \<lparr> title = JStr t, uri = JStr (''https://'' @ t) \<rparr> \<rparr>"

text \<open>A response with eight citations and one chunk without \<open>web\<close>.\<close>

definition sampleResponse :: GenerateContentResponse where
  "sampleResponse =
     \<lparr> responseText = Some ''{\"averagePrice\":60000,\"currency\":\"HKD\"}'',
       candidates = Some [\<lparr> groundingMetadata = Some \<lparr> groundingChunks = Some
         [sampleSource ''a'', sampleSource ''b'', \<lparr> web = None \<rparr>, sampleSource ''c'',
          sampleSource ''d'', sampleSource ''e'', sampleSource ''f'', sampleSource ''g'',
          sampleSource ''h''] \<rparr> \<rparr>] \<rparr>"

text \<open>
  What \<open>JSON.parse\<close> makes of the text of \<open>sampleResponse\<close>, and a valuation gateway
  that answers with \<open>sampleResponse\<close>.
\<close>

definition sampleData :: jsval where
  "sampleData = JObj [(''averagePrice'', JNum (Finite 60000)), (''currency'', JStr ''HKD'')]"

definition sampleParse :: "string \<Rightarrow> jsval option" where
  "sampleParse t = (if responseText sampleResponse = Some t then Some sampleData else None)"

definition sampleValuate :: "WatchIdentity \<Rightarrow> string \<Rightarrow> GenerateContentResponse option" where
  "sampleValuate ident cur = Some sampleResponse"

text \<open>
  The state reached from the initial state over a collection of one saved report by
  uploading one image, which the gateway identifies, then opening the collection and
  selecting the saved report.
\<close>

definition sampleDetailState :: App where
  "sampleDetailState =
     handleSelectFromCollection (sampleReport ''r1'')
       (handleNavigate Collection
         (handleImageUpload (sampleIdentify ''1'') sampleParseIdentity JStr (Some [''data:,a''])
            ((initialApp Map.empty)\<lparr> collection := [sampleReport ''r1''] \<rparr>)))"

section \<open>Properties of the migration\<close>

lemma setProp_fresh: "k \<notin> fst ` set ps \<Longrightarrow> setProp k v ps = ps @ [(k, v)]"
  unfolding setProp_def by (induction ps) auto

lemma foldl_setProp_distinct:
  "distinct (map fst (acc @ ps)) \<Longrightarrow>
   foldl (\<lambda>acc (k, x). setProp k x acc) acc ps = acc @ ps"
proof (induction ps arbitrary: acc)
  case Nil
  then show ?case by simp
next
  case (Cons p ps)
  obtain k v where p: "p = (k, v)" by (cases p)
  from Cons.prems p have fresh: "k \<notin> fst ` set acc" by auto
  from Cons.prems p have d: "distinct (map fst ((acc @ [(k, v)]) @ ps))" by auto
  show ?case using Cons.IH [OF d] by (simp add: p setProp_fresh [OF fresh])
qed

lemma spread_obj_distinct: "distinct (map fst ps) \<Longrightarrow> spread (JObj ps) [] = ps"
  unfolding spread_def using foldl_setProp_distinct [of "[]" ps] by simp

lemma distinct_setProp: "distinct (map fst ps) \<Longrightarrow> distinct (map fst (setProp k v ps))"
  unfolding setProp_def by (rule distinct_update)

lemma distinct_foldl_setProp:
  "distinct (map fst acc) \<Longrightarrow> distinct (map fst (foldl (\<lambda>acc (k, x). setProp k x acc) acc ps))"
  by (induction ps arbitrary: acc) (auto simp: distinct_setProp)

lemma distinct_spread: "distinct (map fst ps) \<Longrightarrow> distinct (map fst (spread v ps))"
  unfolding spread_def by (rule distinct_foldl_setProp)

lemma map_of_setProp: "map_of (setProp k v ps) k' = (if k' = k then Some v else map_of ps k')"
  unfolding setProp_def by (simp add: update_conv')

lemma setProp_same: "map_of ps k = Some v \<Longrightarrow> setProp k v ps = ps"
  unfolding setProp_def by (rule update_triv)

lemma truthy_or_else: "truthy b \<Longrightarrow> truthy (or_else a b)"
  by (simp add: or_else_def)

lemma or_else_truthy: "truthy a \<Longrightarrow> or_else a b = a"
  by (simp add: or_else_def)

lemma hasTruthy_setProp:
  "hasTruthy (setProp k v ps) k' = (if k' = k then truthy v else hasTruthy ps k')"
  by (simp add: hasTruthy_def map_of_setProp)

lemma getProp_obj: "getProp (JObj ps) k = Some (case map_of ps k of None \<Rightarrow> JUndefined | Some x \<Rightarrow> x)"
  by simp

lemma hasTruthy_getProp:
  "hasTruthy ps k \<Longrightarrow> \<exists>v. map_of ps k = Some v \<and> getProp (JObj ps) k = Some v \<and> truthy v"
  by (auto simp: hasTruthy_def split: option.splits)

lemma migrateMarketData_migrated:
  assumes "migrateMarketData item = Some m"
  shows "marketMigrated m"
proof -
  from assms obtain md pros cons currency priceSource where
    m: "m = JObj
         (setProp ''priceSource'' (or_else priceSource (JStr ''Market Data''))
         (setProp ''currency'' (or_else currency (JStr ''HKD''))
         (setProp ''cons'' (or_else cons (JArr []))
         (setProp ''pros'' (or_else pros (JArr []))
         (spread md [])))))"
    by (auto simp: migrateMarketData_def split: bind_splits)
  have d: "distinct (map fst (spread md []))"
    by (rule distinct_spread) simp
  show ?thesis
    unfolding m marketMigrated_def
    by (simp add: distinct_setProp d hasTruthy_setProp truthy_or_else)
qed

lemma setProp_hasTruthy:
  assumes "hasTruthy ps k"
  shows "\<exists>v. getProp (JObj ps) k = Some v \<and> setProp k (or_else v d) ps = ps"
proof -
  from hasTruthy_getProp [OF assms] obtain v where
    v: "map_of ps k = Some v" "getProp (JObj ps) k = Some v" "truthy v" by blast
  then show ?thesis by (simp add: or_else_truthy setProp_same)
qed

lemma migrateMarketData_fixed:
  assumes get: "getProp item ''marketData'' = Some m" and mig: "marketMigrated m"
  shows "migrateMarketData item = Some m"
proof -
  from mig obtain ps where m: "m = JObj ps" and d: "distinct (map fst ps)"
    and h: "hasTruthy ps ''pros''" "hasTruthy ps ''cons''"
      "hasTruthy ps ''currency''" "hasTruthy ps ''priceSource''"
    by (auto simp: marketMigrated_def split: jsval.splits)
  from hasTruthy_getProp [OF h(1)] obtain pros where
    pros: "map_of ps ''pros'' = Some pros" "truthy pros" by blast
  from hasTruthy_getProp [OF h(2)] obtain cons where
    cons: "map_of ps ''cons'' = Some cons" "truthy cons" by blast
  from hasTruthy_getProp [OF h(3)] obtain currency where
    currency: "map_of ps ''currency'' = Some currency" "truthy currency" by blast
  from hasTruthy_getProp [OF h(4)] obtain priceSource where
    priceSource: "map_of ps ''priceSource'' = Some priceSource" "truthy priceSource" by blast
  have s: "spread (JObj ps) [] = ps" by (rule spread_obj_distinct [OF d])
  show ?thesis
    unfolding migrateMarketData_def get m
    by (simp add: pros cons currency priceSource s or_else_truthy setProp_same)
qed

lemma migrateItem_migrated:
  assumes "migrateItem item = Some r"
  shows "itemMigrated r"
proof -
  from assms obtain imageUrls m where
    iu: "migrateImageUrls item = Some imageUrls" and
    md: "migrateMarketData item = Some m" and
    r: "r = JObj (setProp ''marketData'' m (setProp ''imageUrls'' imageUrls (spread item [])))"
    by (auto simp: migrateItem_def split: bind_splits)
  have t: "truthy imageUrls"
    using iu by (auto simp: migrateImageUrls_def split: bind_splits if_splits)
  have d: "distinct (map fst (spread item []))"
    by (rule distinct_spread) simp
  show ?thesis
    unfolding r itemMigrated_def
    by (simp add: distinct_setProp d hasTruthy_setProp t map_of_setProp
        migrateMarketData_migrated [OF md])
qed

lemma migrateItem_fixed:
  assumes "itemMigrated r"
  shows "migrateItem r = Some r"
proof -
  from assms obtain ps m where r: "r = JObj ps" and d: "distinct (map fst ps)"
    and h: "hasTruthy ps ''imageUrls''"
    and m: "map_of ps ''marketData'' = Some m" "marketMigrated m"
    by (auto simp: itemMigrated_def split: jsval.splits option.splits)
  from hasTruthy_getProp [OF h] obtain imageUrls where
    iu: "map_of ps ''imageUrls'' = Some imageUrls" "truthy imageUrls" by blast
  have 1: "migrateImageUrls r = Some imageUrls"
    by (simp add: migrateImageUrls_def r iu)
  have "getProp r ''marketData'' = Some m" by (simp add: r m)
  then have 2: "migrateMarketData r = Some m"
    using m(2) by (rule migrateMarketData_fixed)
  have s: "spread (JObj ps) [] = ps" by (rule spread_obj_distinct [OF d])
  show ?thesis
    unfolding migrateItem_def 1 2
    by (simp add: r s setProp_same iu m)
qed

lemma those_map_fixed:
  "those (map f xs) = Some ys \<Longrightarrow> (\<And>x y. f x = Some y \<Longrightarrow> f y = Some y) \<Longrightarrow>
   those (map f ys) = Some ys"
proof (induction xs arbitrary: ys)
  case Nil
  then show ?case by simp
next
  case (Cons x xs)
  from Cons.prems(1) obtain y ys' where
    y: "f x = Some y" and ys': "those (map f xs) = Some ys'" and ys: "ys = y # ys'"
    by (auto split: option.splits)
  have "those (map f ys') = Some ys'" using ys' Cons.prems(2) by (rule Cons.IH)
  then show ?case by (simp add: ys Cons.prems(2) [OF y])
qed

text \<open>
  Claim C1. Whenever the load-time migration yields a collection for the parsed content
  of the storage slot, applying it to that collection yields the same collection again:
  the legacy image is wrapped once, and the defaults for \<open>pros\<close>, \<open>cons\<close>, \<open>currency\<close>
  and \<open>priceSource\<close> are already in place. (By \<open>migrateItem_succeeds_iff\<close> it yields a
  collection exactly when every record has a \<open>marketData\<close> other than \<open>null\<close>.)
\<close>

theorem migration_idempotent:
  assumes "migratedData parsedData = Some once"
  shows "migratedData once = Some once"
proof -
  from assms obtain items rs where
    p: "parsedData = JArr items" and rs: "those (map migrateItem items) = Some rs"
    and once: "once = JArr rs"
    by (cases parsedData) auto
  have "those (map migrateItem rs) = Some rs"
    using rs by (rule those_map_fixed) (rule migrateItem_fixed, rule migrateItem_migrated)
  then show ?thesis by (simp add: once)
qed

theorem migration_idempotent_witness:
  "migratedData (JArr [JObj [(''id'', JStr ''a''), (''imageUrl'', JStr ''u''),
       (''marketData'', JObj [(''averagePrice'', JNum (Finite 5))])]])
   = Some (JArr [JObj [(''id'', JStr ''a''), (''imageUrl'', JStr ''u''),
       (''marketData'', JObj [(''averagePrice'', JNum (Finite 5)), (''pros'', JArr []),
          (''cons'', JArr []), (''currency'', JStr ''HKD''),
          (''priceSource'', JStr ''Market Data'')]),
       (''imageUrls'', JArr [JStr ''u''])]])
   \<and> migratedData (JArr [JObj [(''id'', JStr ''a''), (''imageUrl'', JStr ''u''),
       (''marketData'', JObj [(''averagePrice'', JNum (Finite 5)), (''pros'', JArr []),
          (''cons'', JArr []), (''currency'', JStr ''HKD''),
          (''priceSource'', JStr ''Market Data'')]),
       (''imageUrls'', JArr [JStr ''u''])]])
   = Some (JArr [JObj [(''id'', JStr ''a''), (''imageUrl'', JStr ''u''),
       (''marketData'', JObj [(''averagePrice'', JNum (Finite 5)), (''pros'', JArr []),
          (''cons'', JArr []), (''currency'', JStr ''HKD''),
          (''priceSource'', JStr ''Market Data'')]),
       (''imageUrls'', JArr [JStr ''u''])]])"
proof -
  have once: "migratedData (JArr [JObj [(''id'', JStr ''a''), (''imageUrl'', JStr ''u''),
       (''marketData'', JObj [(''averagePrice'', JNum (Finite 5))])]])
   = Some (JArr [JObj [(''id'', JStr ''a''), (''imageUrl'', JStr ''u''),
       (''marketData'', JObj [(''averagePrice'', JNum (Finite 5)), (''pros'', JArr []),
          (''cons'', JArr []), (''currency'', JStr ''HKD''),
          (''priceSource'', JStr ''Market Data'')]),
       (''imageUrls'', JArr [JStr ''u''])]])"
    by (simp add: migrateItem_def migrateImageUrls_def migrateMarketData_def
        spread_def setProp_def or_else_def)
  from once migration_idempotent [OF once] show ?thesis by (rule conjI)
qed

lemma getProp_defined: "v \<noteq> JUndefined \<Longrightarrow> v \<noteq> JNull \<Longrightarrow> \<exists>x. getProp v k = Some x"
  by (cases v) simp_all

lemma migrateMarketData_succeeds:
  assumes "hasMarketData item"
  shows "\<exists>m. migrateMarketData item = Some m"
proof -
  from assms obtain md where md: "getProp item ''marketData'' = Some md"
    and ne: "md \<noteq> JUndefined" "md \<noteq> JNull"
    by (auto simp: hasMarketData_def split: option.splits)
  from getProp_defined [OF ne] obtain pros where pros: "getProp md ''pros'' = Some pros" by blast
  from getProp_defined [OF ne] obtain cons where cons: "getProp md ''cons'' = Some cons" by blast
  from getProp_defined [OF ne] obtain cur where cur: "getProp md ''currency'' = Some cur" by blast
  from getProp_defined [OF ne] obtain src where src: "getProp md ''priceSource'' = Some src" by blast
  show ?thesis by (simp add: migrateMarketData_def md pros cons cur src)
qed

lemma hasMarketData_defined: "hasMarketData item \<Longrightarrow> item \<noteq> JUndefined \<and> item \<noteq> JNull"
  by (auto simp: hasMarketData_def)

lemma migrateImageUrls_succeeds:
  assumes "item \<noteq> JUndefined" "item \<noteq> JNull"
  shows "\<exists>v. migrateImageUrls item = Some v"
proof -
  from getProp_defined [OF assms] obtain a where a: "getProp item ''imageUrls'' = Some a" by blast
  from getProp_defined [OF assms] obtain b where b: "getProp item ''imageUrl'' = Some b" by blast
  show ?thesis by (simp add: migrateImageUrls_def a b)
qed

lemma migrateItem_succeeds_iff: "(\<exists>r. migrateItem item = Some r) \<longleftrightarrow> hasMarketData item"
proof
  assume "\<exists>r. migrateItem item = Some r"
  then obtain m where "migrateMarketData item = Some m"
    by (auto simp: migrateItem_def split: bind_splits)
  then obtain md where md: "getProp item ''marketData'' = Some md" and "getProp md ''pros'' \<noteq> None"
    by (auto simp: migrateMarketData_def split: bind_splits)
  then have "md \<noteq> JUndefined \<and> md \<noteq> JNull" by (cases md) auto
  with md show "hasMarketData item" by (simp add: hasMarketData_def)
next
  assume h: "hasMarketData item"
  from migrateMarketData_succeeds [OF h] obtain m where m: "migrateMarketData item = Some m" ..
  from hasMarketData_defined [OF h] migrateImageUrls_succeeds
  obtain v where v: "migrateImageUrls item = Some v" by blast
  show "\<exists>r. migrateItem item = Some r" by (simp add: migrateItem_def m v)
qed

lemma those_map_succeeds:
  "(\<And>x. x \<in> set xs \<Longrightarrow> \<exists>y. f x = Some y) \<Longrightarrow> \<exists>ys. those (map f xs) = Some ys"
proof (induction xs)
  case Nil
  then show ?case by simp
next
  case (Cons x xs)
  from Cons.prems [of x] obtain y where y: "f x = Some y" by auto
  from Cons.IH Cons.prems obtain ys where "those (map f xs) = Some ys" by auto
  then show ?case by (simp add: y)
qed

lemma those_map_nth:
  "those (map f xs) = Some ys \<Longrightarrow>
   length ys = length xs \<and> (\<forall>i < length xs. f (xs ! i) = Some (ys ! i))"
proof (induction xs arbitrary: ys)
  case Nil
  then show ?case by simp
next
  case (Cons x xs)
  from Cons.prems obtain y ys' where
    y: "f x = Some y" and ys': "those (map f xs) = Some ys'" and ys: "ys = y # ys'"
    by (auto split: option.splits)
  from Cons.IH [OF ys'] show ?case
    by (auto simp: ys y nth_Cons split: nat.splits)
qed

lemma migrateItem_no_images:
  assumes none: "''imageUrls'' \<notin> fst ` set ps" "''imageUrl'' \<notin> fst ` set ps"
      and r: "migrateItem (JObj ps) = Some r"
  shows "getProp r ''imageUrls'' = Some (JArr [])"
proof -
  from none have n: "map_of ps ''imageUrls'' = None" "map_of ps ''imageUrl'' = None"
    by (simp_all add: map_of_eq_None_iff)
  then have iu: "migrateImageUrls (JObj ps) = Some (JArr [])"
    by (simp add: migrateImageUrls_def)
  from r iu obtain m where
    "r = JObj (setProp ''marketData'' m (setProp ''imageUrls'' (JArr []) (spread (JObj ps) [])))"
    by (auto simp: migrateItem_def split: bind_splits)
  then show ?thesis by (simp add: map_of_setProp)
qed

text \<open>
  Claim C10. In a record set that the migration accepts, a record that has neither the
  property \<open>imageUrls\<close> nor the property \<open>imageUrl\<close> comes out with \<open>imageUrls\<close> equal
  to the empty array: the migrated record has no image at all, fewer than the one to
  three of an \<open>AppraisalReport\<close>.
\<close>

theorem migration_without_images:
  assumes all: "\<forall>item \<in> set items. hasMarketData item"
      and i: "i < length items" and item: "items ! i = JObj ps"
      and none: "''imageUrls'' \<notin> fst ` set ps" "''imageUrl'' \<notin> fst ` set ps"
  shows "\<exists>rs. migratedData (JArr items) = Some (JArr rs) \<and> length rs = length items \<and>
           getProp (rs ! i) ''imageUrls'' = Some (JArr [])"
proof -
  from all have "\<And>x. x \<in> set items \<Longrightarrow> \<exists>y. migrateItem x = Some y"
    by (simp add: migrateItem_succeeds_iff)
  then obtain rs where rs: "those (map migrateItem items) = Some rs"
    using those_map_succeeds by blast
  from those_map_nth [OF rs] i item have len: "length rs = length items"
    and r: "migrateItem (JObj ps) = Some (rs ! i)" by auto
  from migrateItem_no_images [OF none r] rs len show ?thesis by simp
qed

theorem migration_without_images_witness:
  "\<exists>rs. migratedData (JArr [JObj [(''id'', JStr ''a''), (''marketData'', JObj [])]]) = Some (JArr rs) \<and>
     length rs = 1 \<and> getProp (rs ! 0) ''imageUrls'' = Some (JArr [])"
  using migration_without_images
    [of "[JObj [(''id'', JStr ''a''), (''marketData'', JObj [])]]" 0
        "[(''id'', JStr ''a''), (''marketData'', JObj [])]"]
  by (simp add: hasMarketData_def)

section \<open>Properties of the image intake\<close>

lemma indexDiffers_of_nat: "indexDiffers i (Finite (of_nat k)) \<longleftrightarrow> i \<noteq> k"
  by (auto simp: indexDiffers_def)

lemma filter_enumerate_below:
  "k < m \<Longrightarrow> map snd (filter (\<lambda>(i, img). i \<noteq> k) (enumerate m xs)) = xs"
  by (induction xs arbitrary: m) auto

lemma filter_enumerate_remove:
  "m \<le> k \<Longrightarrow> k < m + length xs \<Longrightarrow>
   map snd (filter (\<lambda>(i, img). i \<noteq> k) (enumerate m xs)) = take (k - m) xs @ drop (Suc (k - m)) xs"
proof (induction xs arbitrary: m)
  case Nil
  then show ?case by simp
next
  case (Cons x xs)
  show ?case
  proof (cases "m = k")
    case True
    then show ?thesis by (simp add: filter_enumerate_below)
  next
    case False
    with Cons.prems have "Suc m \<le> k" "k < Suc m + length xs" by simp_all
    moreover from False Cons.prems have "k - m = Suc (k - Suc m)" by simp
    ultimately show ?thesis using Cons.IH [of "Suc m"] False by simp
  qed
qed

lemma otherImages_index:
  "k < length full \<Longrightarrow> otherImages full (Finite (of_nat k)) = take k full @ drop (Suc k) full"
  using filter_enumerate_remove [of 0 k full]
  by (simp add: otherImages_def indexDiffers_of_nat)

lemma arrayAt_index: "k < length full \<Longrightarrow> arrayAt full (Finite (of_nat k)) = full ! k"
  by simp

lemma sortedImages_index:
  "k < length full \<Longrightarrow>
   sortedImages (Some full) (Some (Finite (of_nat k))) = Some (full ! k # take k full @ drop (Suc k) full)"
  by (simp add: sortedImages_def otherImages_index)

lemma sortedImages_absent: "sortedImages (Some full) None = None"
  by (simp add: sortedImages_def)

lemma sortedImages_negative: "q < 0 \<Longrightarrow> sortedImages (Some full) (Some (Finite q)) = None"
  by (simp add: sortedImages_def)

lemma sortedImages_beyond:
  "of_nat (length full) \<le> q \<Longrightarrow> sortedImages (Some full) (Some (Finite q)) = None"
  by (simp add: sortedImages_def)

lemma sortedImages_not_finite:
  "n \<in> {NaN, Infinity, NegInfinity} \<Longrightarrow> sortedImages (Some full) (Some n) = None"
  by (auto simp: sortedImages_def)

lemma images_analyzeImage:
  "identifyWatchFromImage gw parse raws = Inr result \<Longrightarrow>
   images (analyzeImage gw parse raws full s) =
     (case sortedImages full (bestImageIndex result) of Some xs \<Rightarrow> xs | None \<Rightarrow> images s)"
  by (simp add: analyzeImage_def Let_def split: option.splits)

text \<open>
  Claim C2. After a successful identification over the image list \<open>L\<close>: when the
  returned index is the integer \<open>k\<close> with \<open>k < length L\<close>, the images become \<open>L ! k\<close>
  followed by \<open>L\<close> without its element \<open>k\<close>, the others in their order; when the index is
  absent, negative, or at least the length of \<open>L\<close>, the images stay as they are (in
  \<open>handleImageUpload\<close> they were set to \<open>L\<close> just before), and likewise when it is
  \<open>NaN\<close> or infinite.
\<close>

theorem best_cover_reordering:
  assumes "identifyWatchFromImage gw parse raws = Inr result"
  shows "(bestImageIndex result = Some (Finite (of_nat k)) \<and> k < length L \<longrightarrow>
            images (analyzeImage gw parse raws (Some L) s) = L ! k # (take k L @ drop (Suc k) L))
       \<and> (bestImageIndex result = None \<longrightarrow>
            images (analyzeImage gw parse raws (Some L) s) = images s)
       \<and> (bestImageIndex result = Some (Finite q) \<and> (q < 0 \<or> of_nat (length L) \<le> q) \<longrightarrow>
            images (analyzeImage gw parse raws (Some L) s) = images s)
       \<and> (bestImageIndex result \<in> {Some NaN, Some Infinity, Some NegInfinity} \<longrightarrow>
            images (analyzeImage gw parse raws (Some L) s) = images s)"
  using images_analyzeImage [OF assms, of "Some L" s]
  by (auto simp: sortedImages_index sortedImages_absent sortedImages_negative sortedImages_beyond
      sortedImages_not_finite)

lemma sample_identification:
  "identifyWatchFromImage (sampleIdentify ''1'') sampleParseIdentity raws = Inr sampleIdentity"
  by (simp add: identifyWatchFromImage_def sampleIdentify_def sampleParseIdentity_def
      sampleIdentityText_def)

text \<open>The images \<open>[a, b, c]\<close> with best index 1 and with best index 5.\<close>

theorem best_cover_reordering_witness:
  "images (analyzeImage (sampleIdentify ''1'') sampleParseIdentity [JStr ''a'', JStr ''b'', JStr ''c'']
             (Some [JStr ''data:,a'', JStr ''data:,b'', JStr ''data:,c''])
             ((initialApp Map.empty)\<lparr> images := [JStr ''data:,a'', JStr ''data:,b'', JStr ''data:,c''] \<rparr>))
     = [JStr ''data:,b'', JStr ''data:,a'', JStr ''data:,c'']
   \<and> images (analyzeImage (sampleIdentify ''5'') sampleParseIdentity [JStr ''a'', JStr ''b'', JStr ''c'']
             (Some [JStr ''data:,a'', JStr ''data:,b'', JStr ''data:,c''])
             ((initialApp Map.empty)\<lparr> images := [JStr ''data:,a'', JStr ''data:,b'', JStr ''data:,c''] \<rparr>))
     = [JStr ''data:,a'', JStr ''data:,b'', JStr ''data:,c'']"
proof -
  let ?L = "[JStr ''data:,a'', JStr ''data:,b'', JStr ''data:,c'']"
  let ?s = "(initialApp Map.empty)\<lparr> images := ?L \<rparr>"
  have one: "identifyWatchFromImage (sampleIdentify ''1'') sampleParseIdentity
               [JStr ''a'', JStr ''b'', JStr ''c''] = Inr sampleIdentity"
    by (simp add: sample_identification)
  have five: "identifyWatchFromImage (sampleIdentify ''5'') sampleParseIdentity
                [JStr ''a'', JStr ''b'', JStr ''c'']
               = Inr (sampleIdentity\<lparr> bestImageIndex := Some (Finite 5) \<rparr>)"
    by (simp add: identifyWatchFromImage_def sampleIdentify_def sampleParseIdentity_def
        sampleIdentityText_def)
  from best_cover_reordering [OF one, of 1 ?L ?s 0] best_cover_reordering [OF five, of 0 ?L ?s 5]
  show ?thesis by (simp add: sampleIdentity_def)
qed

text \<open>
  Claim C7. An upload of more than three files only adds the notice to the alerts:
  the state (\<open>IDLE\<close> when the upload area is shown) stays, and no call to the
  identification gateway is made.
\<close>

theorem upload_over_three_rejected:
  assumes "3 < length files"
  shows "handleImageUpload gw parse readAsDataURL (Some files) s
           = s\<lparr> alerts := alerts s @ [maxPhotosNotice] \<rparr>
       \<and> state (handleImageUpload gw parse readAsDataURL (Some files) s) = state s
       \<and> identifyCalls (handleImageUpload gw parse readAsDataURL (Some files) s) = identifyCalls s"
proof -
  from assms have "files \<noteq> []" by auto
  with assms show ?thesis by (simp add: handleImageUpload_def)
qed

text \<open>Four files, uploaded in the initial state.\<close>

theorem upload_over_three_rejected_witness:
  "handleImageUpload (sampleIdentify ''1'') sampleParseIdentity JStr (Some [''data:,a'', ''data:,b'', ''data:,c'', ''data:,d''])
      (initialApp Map.empty)
     = (initialApp Map.empty)\<lparr> alerts := [maxPhotosNotice] \<rparr>
   \<and> state (handleImageUpload (sampleIdentify ''1'') sampleParseIdentity JStr
        (Some [''data:,a'', ''data:,b'', ''data:,c'', ''data:,d'']) (initialApp Map.empty)) = IDLE
   \<and> identifyCalls (handleImageUpload (sampleIdentify ''1'') sampleParseIdentity JStr
        (Some [''data:,a'', ''data:,b'', ''data:,c'', ''data:,d'']) (initialApp Map.empty)) = []"
  using upload_over_three_rejected
    [of "[''data:,a'', ''data:,b'', ''data:,c'', ''data:,d'']" "sampleIdentify ''1''" sampleParseIdentity JStr
        "initialApp Map.empty"]
  by (simp add: initialApp_def)

section \<open>Properties of the Collection Store\<close>

lemma list_ex_report_id:
  "list_ex (\<lambda>item. report_id item = rid) xs \<longleftrightarrow> rid \<in> report_id ` set xs"
  by (auto simp: list_ex_iff)

text \<open>
  Claim C3. Saving a report whose id is already the id of a record of the collection
  changes nothing: the collection, its length and the storage stay as they are.
  Otherwise the report becomes the first record, before the old ones, and the storage
  slot takes the serialisation of the whole new collection.
\<close>

theorem append_if_absent:
  "(report_id r \<in> report_id ` set (collection s) \<longrightarrow>
      handleSaveToCollection stringify r s = s)
   \<and> (report_id r \<notin> report_id ` set (collection s) \<longrightarrow>
      collection (handleSaveToCollection stringify r s) = r # collection s
      \<and> localStorage (handleSaveToCollection stringify r s) ''horology_collection''
          = Some (stringify (r # collection s)))"
  by (simp add: handleSaveToCollection_def saveCollection_def list_ex_report_id)

text \<open>Saving the report \<open>r1\<close> again, and saving a report \<open>r2\<close>, over the collection \<open>[r1]\<close>.\<close>

theorem append_if_absent_witness:
  "handleSaveToCollection (\<lambda>c. concat (map report_id c)) (sampleReport ''r1'')
      ((initialApp Map.empty)\<lparr> collection := [sampleReport ''r1''] \<rparr>)
     = (initialApp Map.empty)\<lparr> collection := [sampleReport ''r1''] \<rparr>
   \<and> collection (handleSaveToCollection (\<lambda>c. concat (map report_id c)) (sampleReport ''r2'')
        ((initialApp Map.empty)\<lparr> collection := [sampleReport ''r1''] \<rparr>))
     = [sampleReport ''r2'', sampleReport ''r1'']
   \<and> localStorage (handleSaveToCollection (\<lambda>c. concat (map report_id c)) (sampleReport ''r2'')
        ((initialApp Map.empty)\<lparr> collection := [sampleReport ''r1''] \<rparr>)) ''horology_collection''
     = Some ''r2r1''"
  using append_if_absent
    [of "sampleReport ''r1''" "(initialApp Map.empty)\<lparr> collection := [sampleReport ''r1''] \<rparr>"
        "\<lambda>c. concat (map report_id c)"]
    append_if_absent
    [of "sampleReport ''r2''" "(initialApp Map.empty)\<lparr> collection := [sampleReport ''r1''] \<rparr>"
        "\<lambda>c. concat (map report_id c)"]
  by (simp add: sampleReport_def)

lemma filter_other_ids:
  "rid \<notin> report_id ` set xs \<Longrightarrow> filter (\<lambda>item. report_id item \<noteq> rid) xs = xs"
  by (induction xs) auto

lemma collection_delete:
  "collection (handleDeleteFromCollection stringify rid s)
     = filter (\<lambda>item. report_id item \<noteq> rid) (collection s)"
  by (simp add: handleDeleteFromCollection_def saveCollection_def)

lemma storage_delete:
  "localStorage (handleDeleteFromCollection stringify rid s) ''horology_collection''
     = Some (stringify (collection (handleDeleteFromCollection stringify rid s)))"
  by (simp add: handleDeleteFromCollection_def saveCollection_def)

lemma filter_unique_id:
  assumes d: "distinct (map report_id xs)" and m: "rid \<in> report_id ` set xs"
  shows "\<exists>ys r zs. xs = ys @ r # zs \<and> report_id r = rid \<and>
           filter (\<lambda>item. report_id item \<noteq> rid) xs = ys @ zs"
proof -
  from m obtain r where "r \<in> set xs" and r: "report_id r = rid" by auto
  then obtain ys zs where xs: "xs = ys @ r # zs" by (auto dest: split_list)
  from d have "rid \<notin> report_id ` set ys" "rid \<notin> report_id ` set zs"
    by (auto simp: xs r [symmetric])
  then have "filter (\<lambda>item. report_id item \<noteq> rid) xs = ys @ zs"
    by (simp add: xs r filter_other_ids)
  with xs r show ?thesis by blast
qed

text \<open>
  Claim C4. Deleting an id that no record has leaves the collection as it is. Deleting
  the id of a record, in a collection with unique ids, makes the collection one shorter,
  leaves no record with that id, and keeps the records before and after the deleted one
  in their order. In both cases the storage slot takes the serialisation of the
  resulting collection.
\<close>

theorem remove_by_id:
  "(rid \<notin> report_id ` set (collection s) \<longrightarrow>
      collection (handleDeleteFromCollection stringify rid s) = collection s)
   \<and> (distinct (map report_id (collection s)) \<and> rid \<in> report_id ` set (collection s) \<longrightarrow>
      length (collection (handleDeleteFromCollection stringify rid s)) + 1 = length (collection s)
      \<and> rid \<notin> report_id ` set (collection (handleDeleteFromCollection stringify rid s))
      \<and> (\<exists>ys r zs. collection s = ys @ r # zs \<and> report_id r = rid \<and>
            collection (handleDeleteFromCollection stringify rid s) = ys @ zs))
   \<and> localStorage (handleDeleteFromCollection stringify rid s) ''horology_collection''
        = Some (stringify (collection (handleDeleteFromCollection stringify rid s)))"
proof (intro conjI impI)
  assume "rid \<notin> report_id ` set (collection s)"
  then show "collection (handleDeleteFromCollection stringify rid s) = collection s"
    by (simp add: collection_delete filter_other_ids)
next
  assume a: "distinct (map report_id (collection s)) \<and> rid \<in> report_id ` set (collection s)"
  from filter_unique_id [of "collection s" rid] a obtain ys r zs where
    c: "collection s = ys @ r # zs" and r: "report_id r = rid"
    and f: "filter (\<lambda>item. report_id item \<noteq> rid) (collection s) = ys @ zs" by blast
  show "length (collection (handleDeleteFromCollection stringify rid s)) + 1 = length (collection s)"
    by (simp add: collection_delete f) (simp add: c)
  show "rid \<notin> report_id ` set (collection (handleDeleteFromCollection stringify rid s))"
    by (auto simp: collection_delete)
  show "\<exists>ys r zs. collection s = ys @ r # zs \<and> report_id r = rid \<and>
          collection (handleDeleteFromCollection stringify rid s) = ys @ zs"
    using c r f by (auto simp: collection_delete)
next
  show "localStorage (handleDeleteFromCollection stringify rid s) ''horology_collection''
        = Some (stringify (collection (handleDeleteFromCollection stringify rid s)))"
    by (rule storage_delete)
qed

text \<open>Deleting \<open>r9\<close> and deleting \<open>r2\<close> from the collection \<open>[r1, r2, r3]\<close>.\<close>

theorem remove_by_id_witness:
  "collection (handleDeleteFromCollection (\<lambda>c. concat (map report_id c)) ''r9''
      ((initialApp Map.empty)\<lparr> collection := [sampleReport ''r1'', sampleReport ''r2'', sampleReport ''r3''] \<rparr>))
     = [sampleReport ''r1'', sampleReport ''r2'', sampleReport ''r3'']
   \<and> length (collection (handleDeleteFromCollection (\<lambda>c. concat (map report_id c)) ''r2''
      ((initialApp Map.empty)\<lparr> collection := [sampleReport ''r1'', sampleReport ''r2'', sampleReport ''r3''] \<rparr>)))
     = 2
   \<and> ''r2'' \<notin> report_id ` set (collection (handleDeleteFromCollection (\<lambda>c. concat (map report_id c)) ''r2''
      ((initialApp Map.empty)\<lparr> collection := [sampleReport ''r1'', sampleReport ''r2'', sampleReport ''r3''] \<rparr>)))"
  using remove_by_id
    [of "''r9''" "(initialApp Map.empty)\<lparr> collection := [sampleReport ''r1'', sampleReport ''r2'', sampleReport ''r3''] \<rparr>"
        "\<lambda>c. concat (map report_id c)"]
    remove_by_id
    [of "''r2''" "(initialApp Map.empty)\<lparr> collection := [sampleReport ''r1'', sampleReport ''r2'', sampleReport ''r3''] \<rparr>"
        "\<lambda>c. concat (map report_id c)"]
  by (simp add: sampleReport_def)

section \<open>Properties of the navigation\<close>

text \<open>
  Claim C9, amended. Navigating home from the collection view leads to \<open>REPORT_READY\<close>
  if a report is active, else to \<open>IDENTITY_CONFIRMED\<close> if an identity is active, else to
  \<open>IDLE\<close>; navigating home from the detail view always leads to \<open>IDLE\<close>. Arriving in
  \<open>IDLE\<close> is \<open>resetApp\<close>: images, price, identity, market data, report and error are
  cleared; otherwise only the state changes.
\<close>

theorem navigate_home:
  assumes "state s = VIEWING_COLLECTION \<or> state s = VIEWING_COLLECTION_DETAIL"
  shows "state (handleNavigate Home s) =
           (if state s = VIEWING_COLLECTION \<and> report s \<noteq> None then REPORT_READY
            else if state s = VIEWING_COLLECTION \<and> identity s \<noteq> None then IDENTITY_CONFIRMED
            else IDLE)
       \<and> (state (handleNavigate Home s) = IDLE \<longrightarrow>
            handleNavigate Home s = resetApp s
            \<and> images (handleNavigate Home s) = [] \<and> purchasePrice (handleNavigate Home s) = []
            \<and> identity (handleNavigate Home s) = None \<and> marketData (handleNavigate Home s) = None
            \<and> report (handleNavigate Home s) = None \<and> error (handleNavigate Home s) = None)
       \<and> (state (handleNavigate Home s) \<noteq> IDLE \<longrightarrow>
            handleNavigate Home s = s\<lparr> state := state (handleNavigate Home s) \<rparr>)"
  using assms by (auto simp: resetApp_def)

lemma sampleDetailState_eq:
  "sampleDetailState =
     (initialApp Map.empty)\<lparr> collection := [sampleReport ''r1''], images := [JStr ''data:,a''],
        identifyCalls := [[JStr ''a'']], identity := Some sampleIdentity,
        report := Some (sampleReport ''r1''), state := VIEWING_COLLECTION_DETAIL \<rparr>"
  by (simp add: sampleDetailState_def handleSelectFromCollection_def handleImageUpload_def
      analyzeImage_def sample_identification sortedImages_def sampleIdentity_def
      initialApp_def)

text \<open>Home from the detail view, and from the collection view with and without a report.\<close>

theorem navigate_home_witness:
  "state (handleNavigate Home sampleDetailState) = IDLE
   \<and> identity (handleNavigate Home sampleDetailState) = None
   \<and> report (handleNavigate Home sampleDetailState) = None
   \<and> state (handleNavigate Home (sampleDetailState\<lparr> state := VIEWING_COLLECTION \<rparr>)) = REPORT_READY
   \<and> state (handleNavigate Home (sampleDetailState\<lparr> state := VIEWING_COLLECTION, report := None \<rparr>))
       = IDENTITY_CONFIRMED"
proof -
  have 1: "state sampleDetailState = VIEWING_COLLECTION \<or> state sampleDetailState = VIEWING_COLLECTION_DETAIL"
    by (simp add: sampleDetailState_eq)
  have 2: "state (sampleDetailState\<lparr> state := VIEWING_COLLECTION \<rparr>) = VIEWING_COLLECTION
         \<or> state (sampleDetailState\<lparr> state := VIEWING_COLLECTION \<rparr>) = VIEWING_COLLECTION_DETAIL"
    by simp
  have 3: "state (sampleDetailState\<lparr> state := VIEWING_COLLECTION, report := None \<rparr>) = VIEWING_COLLECTION
         \<or> state (sampleDetailState\<lparr> state := VIEWING_COLLECTION, report := None \<rparr>) = VIEWING_COLLECTION_DETAIL"
    by simp
  have d: "state sampleDetailState = VIEWING_COLLECTION_DETAIL"
    "report sampleDetailState \<noteq> None" "identity sampleDetailState \<noteq> None"
    by (simp_all add: sampleDetailState_eq)
  from navigate_home [OF 1] navigate_home [OF 2] navigate_home [OF 3] d
  show ?thesis by (simp add: resetApp_def)
qed

text \<open>
  Claim C9 as stated fails: in the detail view with an identity active, the
  specification's wording gives \<open>IDENTITY_CONFIRMED\<close>, and \<open>handleNavigate\<close> resets to
  \<open>IDLE\<close>.
\<close>

theorem navigate_home_counterexample:
  "state sampleDetailState = VIEWING_COLLECTION_DETAIL
   \<and> identity sampleDetailState = Some sampleIdentity
   \<and> navigateHomeAsSpecified sampleDetailState = IDENTITY_CONFIRMED
   \<and> state (handleNavigate Home sampleDetailState) = IDLE"
  by (simp add: sampleDetailState_eq navigateHomeAsSpecified_def initialApp_def resetApp_def)

section \<open>Properties of the valuation\<close>

lemma getMarketValuation_Inr:
  assumes "getMarketValuation gw parse ident price (Some C) = Inr data"
  shows "\<exists>response t parsed. gw ident C = Some response \<and> responseText response = Some t \<and>
           t \<noteq> [] \<and> parse t = Some parsed \<and>
           data = JObj (setProp ''sources'' (JArr (take 5 (sources response)))
                       (setProp ''currency'' (JStr C) (spread parsed [])))"
  using assms
  by (auto simp: getMarketValuation_def split: option.splits if_splits)

lemma getMarketValuation_currency:
  assumes "getMarketValuation gw parse ident price (Some C) = Inr data"
  shows "getProp data ''currency'' = Some (JStr C)"
proof -
  from getMarketValuation_Inr [OF assms] obtain response parsed where
    "data = JObj (setProp ''sources'' (JArr (take 5 (sources response)))
                 (setProp ''currency'' (JStr C) (spread parsed [])))" by blast
  then show ?thesis by (simp add: map_of_setProp)
qed

lemma handleAppraisal_Inr:
  assumes "identity s = Some ident" "purchasePrice s \<noteq> []"
      and "getMarketValuation gw parse ident (parseFloat (purchasePrice s)) (Some (currency s)) = Inr data"
  shows "handleAppraisal gw parse parseFloat uuid today s =
           s\<lparr> state := REPORT_READY,
              valuationCalls := valuationCalls s @ [(ident, currency s)],
              marketData := Some data,
              report := Some \<lparr> report_id = uuid, report_date = today,
                               report_imageUrls = images s,
                               report_purchasePrice = parseFloat (purchasePrice s),
                               report_identity = ident, report_marketData = data \<rparr> \<rparr>"
  using assms by (simp add: handleAppraisal_def Let_def)

lemma handleAppraisal_Inl:
  assumes "identity s = Some ident" "purchasePrice s \<noteq> []"
      and "getMarketValuation gw parse ident (parseFloat (purchasePrice s)) (Some (currency s)) = Inl message"
  shows "handleAppraisal gw parse parseFloat uuid today s =
           s\<lparr> state := ERROR,
              valuationCalls := valuationCalls s @ [(ident, currency s)],
              error := Some (if message \<noteq> [] then message else ''Failed to fetch market data'') \<rparr>"
  using assms by (simp add: handleAppraisal_def Let_def)

text \<open>
  Claim C5. When the valuation call succeeds, the report is ready and the market data
  attached to it has the property \<open>currency\<close> equal to the currency requested, whatever
  the parsed response says.
\<close>

theorem valuation_currency_forced:
  assumes "identity s = Some ident" and "purchasePrice s \<noteq> []"
      and "getMarketValuation gw parse ident (parseFloat (purchasePrice s)) (Some (currency s)) = Inr data"
  shows "state (handleAppraisal gw parse parseFloat uuid today s) = REPORT_READY
       \<and> (\<exists>r. report (handleAppraisal gw parse parseFloat uuid today s) = Some r
              \<and> report_marketData r = data
              \<and> getProp (report_marketData r) ''currency'' = Some (JStr (currency s)))"
  using handleAppraisal_Inr [where parseFloat = parseFloat and uuid = uuid and today = today, OF assms]
    getMarketValuation_currency [OF assms(3)]
  by simp

lemma sample_valuation:
  "getMarketValuation sampleValuate sampleParse sampleIdentity
      (Finite 50000) (Some ''USD'')
   = Inr (JObj [(''averagePrice'', JNum (Finite 60000)), (''currency'', JStr ''USD''),
               (''sources'', JArr
                 [JObj [(''title'', JStr ''a''), (''uri'', JStr ''https://a'')],
                  JObj [(''title'', JStr ''b''), (''uri'', JStr ''https://b'')],
                  JObj [(''title'', JStr ''c''), (''uri'', JStr ''https://c'')],
                  JObj [(''title'', JStr ''d''), (''uri'', JStr ''https://d'')],
                  JObj [(''title'', JStr ''e''), (''uri'', JStr ''https://e'')]])])"
  by (simp add: getMarketValuation_def sampleValuate_def sampleParse_def sampleResponse_def
      sampleData_def sources_def chunkSource_def sampleSource_def spread_def setProp_def)

text \<open>A request in USD answered by data that claims HKD.\<close>

theorem valuation_currency_forced_witness:
  "state (handleAppraisal sampleValuate sampleParse (\<lambda>p. Finite 50000)
            ''id-1'' ''30/1/2024''
            ((initialApp Map.empty)\<lparr> identity := Some sampleIdentity, purchasePrice := ''50000'',
                                     currency := ''USD'' \<rparr>)) = REPORT_READY
   \<and> getProp sampleData ''currency'' = Some (JStr ''HKD'')
   \<and> (\<exists>r. report (handleAppraisal sampleValuate sampleParse (\<lambda>p. Finite 50000)
            ''id-1'' ''30/1/2024''
            ((initialApp Map.empty)\<lparr> identity := Some sampleIdentity, purchasePrice := ''50000'',
                                     currency := ''USD'' \<rparr>)) = Some r
          \<and> getProp (report_marketData r) ''currency'' = Some (JStr ''USD''))"
proof -
  let ?s = "(initialApp Map.empty)\<lparr> identity := Some sampleIdentity, purchasePrice := ''50000'',
                                     currency := ''USD'' \<rparr>"
  have 1: "identity ?s = Some sampleIdentity" by (simp add: initialApp_def)
  have 2: "purchasePrice ?s \<noteq> []" by (simp add: initialApp_def)
  have 3: "getMarketValuation sampleValuate sampleParse sampleIdentity
             ((\<lambda>p. Finite 50000) (purchasePrice ?s)) (Some (currency ?s)) =
           Inr (JObj [(''averagePrice'', JNum (Finite 60000)), (''currency'', JStr ''USD''),
               (''sources'', JArr
                 [JObj [(''title'', JStr ''a''), (''uri'', JStr ''https://a'')],
                  JObj [(''title'', JStr ''b''), (''uri'', JStr ''https://b'')],
                  JObj [(''title'', JStr ''c''), (''uri'', JStr ''https://c'')],
                  JObj [(''title'', JStr ''d''), (''uri'', JStr ''https://d'')],
                  JObj [(''title'', JStr ''e''), (''uri'', JStr ''https://e'')]])])"
    using sample_valuation by (simp add: initialApp_def)
  have 4: "getProp sampleData ''currency'' = Some (JStr ''HKD'')" by (simp add: sampleData_def)
  from valuation_currency_forced
    [where parseFloat = "\<lambda>p. Finite 50000" and uuid = "''id-1''" and today = "''30/1/2024''", OF 1 2 3]
    4
  show ?thesis by (auto simp: initialApp_def)
qed

text \<open>
  Claim C6. When the valuation call succeeds, the property \<open>sources\<close> of the market data
  is the list of the first five citations of the response in their order (all of them
  when there are fewer): at most five, and exactly five when the gateway supplied more.
\<close>

theorem valuation_sources_capped:
  assumes "gw ident C = Some response"
      and "getMarketValuation gw parse ident price (Some C) = Inr data"
  shows "getProp data ''sources'' = Some (JArr (take 5 (sources response)))
       \<and> length (take 5 (sources response)) \<le> 5
       \<and> (5 < length (sources response) \<longrightarrow> length (take 5 (sources response)) = 5)"
proof -
  from getMarketValuation_Inr [OF assms(2)] assms(1) obtain parsed where
    "data = JObj (setProp ''sources'' (JArr (take 5 (sources response)))
                 (setProp ''currency'' (JStr C) (spread parsed [])))" by auto
  then show ?thesis by (simp add: map_of_setProp)
qed

text \<open>A response with eight citations.\<close>

theorem valuation_sources_capped_witness:
  "length (sources sampleResponse) = 8
   \<and> (\<exists>data. getMarketValuation sampleValuate sampleParse sampleIdentity
                (Finite 50000) (Some ''USD'') = Inr data
        \<and> getProp data ''sources'' = Some (JArr
                 [JObj [(''title'', JStr ''a''), (''uri'', JStr ''https://a'')],
                  JObj [(''title'', JStr ''b''), (''uri'', JStr ''https://b'')],
                  JObj [(''title'', JStr ''c''), (''uri'', JStr ''https://c'')],
                  JObj [(''title'', JStr ''d''), (''uri'', JStr ''https://d'')],
                  JObj [(''title'', JStr ''e''), (''uri'', JStr ''https://e'')]]))"
proof -
  have src: "sources sampleResponse =
                 [JObj [(''title'', JStr ''a''), (''uri'', JStr ''https://a'')],
                  JObj [(''title'', JStr ''b''), (''uri'', JStr ''https://b'')],
                  JObj [(''title'', JStr ''c''), (''uri'', JStr ''https://c'')],
                  JObj [(''title'', JStr ''d''), (''uri'', JStr ''https://d'')],
                  JObj [(''title'', JStr ''e''), (''uri'', JStr ''https://e'')],
                  JObj [(''title'', JStr ''f''), (''uri'', JStr ''https://f'')],
                  JObj [(''title'', JStr ''g''), (''uri'', JStr ''https://g'')],
                  JObj [(''title'', JStr ''h''), (''uri'', JStr ''https://h'')]]"
    by (simp add: sampleResponse_def sources_def chunkSource_def sampleSource_def)
  have gw: "sampleValuate sampleIdentity ''USD'' = Some sampleResponse"
    by (simp add: sampleValuate_def)
  from valuation_sources_capped [OF gw sample_valuation] src sample_valuation
  show ?thesis by simp
qed

lemma marketErrorMessage_nonempty: "marketErrorMessage \<noteq> []"
  by (simp add: marketErrorMessage_def)

lemma getMarketValuation_parsedResponse:
  "getMarketValuation gw parse ident price (Some C) =
     (case parsedResponse gw parse ident C of
        None \<Rightarrow> Inl marketErrorMessage
      | Some parsed \<Rightarrow>
          (case gw ident C of
             None \<Rightarrow> Inl marketErrorMessage
           | Some response \<Rightarrow>
               Inr (JObj (setProp ''sources'' (JArr (take 5 (sources response)))
                         (setProp ''currency'' (JStr C) (spread parsed []))))))"
  by (simp add: getMarketValuation_def parsedResponse_def split: option.splits)

text \<open>
  Claim C8, amended. The valuation fails, with state \<open>ERROR\<close> and the fixed message,
  when the gateway call is rejected, the response has no text or an empty one, or the
  text is not JSON. When the text parses, the report is ready, whatever fields the
  parsed data has: the required fields are part of the request, and the response is not
  checked for them.
\<close>

theorem valuation_failure:
  assumes "identity s = Some ident" and "purchasePrice s \<noteq> []"
  shows "(parsedResponse gw parse ident (currency s) = None \<longrightarrow>
            state (handleAppraisal gw parse parseFloat uuid today s) = ERROR
            \<and> error (handleAppraisal gw parse parseFloat uuid today s) = Some marketErrorMessage
            \<and> report (handleAppraisal gw parse parseFloat uuid today s) = report s)
       \<and> (parsedResponse gw parse ident (currency s) \<noteq> None \<longrightarrow>
            state (handleAppraisal gw parse parseFloat uuid today s) = REPORT_READY
            \<and> report (handleAppraisal gw parse parseFloat uuid today s) \<noteq> None
            \<and> error (handleAppraisal gw parse parseFloat uuid today s) = error s)"
proof (intro conjI impI)
  assume n: "parsedResponse gw parse ident (currency s) = None"
  then have "getMarketValuation gw parse ident (parseFloat (purchasePrice s)) (Some (currency s))
               = Inl marketErrorMessage"
    by (simp add: getMarketValuation_parsedResponse)
  from handleAppraisal_Inl [where parseFloat = parseFloat and uuid = uuid and today = today, OF assms this]
  show "state (handleAppraisal gw parse parseFloat uuid today s) = ERROR"
    and "error (handleAppraisal gw parse parseFloat uuid today s) = Some marketErrorMessage"
    and "report (handleAppraisal gw parse parseFloat uuid today s) = report s"
    by (simp_all add: marketErrorMessage_nonempty)
next
  assume "parsedResponse gw parse ident (currency s) \<noteq> None"
  then obtain data where
    "getMarketValuation gw parse ident (parseFloat (purchasePrice s)) (Some (currency s)) = Inr data"
    by (auto simp: getMarketValuation_parsedResponse parsedResponse_def split: option.splits)
  from handleAppraisal_Inr [where parseFloat = parseFloat and uuid = uuid and today = today, OF assms this]
  show "state (handleAppraisal gw parse parseFloat uuid today s) = REPORT_READY"
    and "report (handleAppraisal gw parse parseFloat uuid today s) \<noteq> None"
    and "error (handleAppraisal gw parse parseFloat uuid today s) = error s"
    by simp_all
qed

text \<open>A rejected call, and a response whose text parses.\<close>

theorem valuation_failure_witness:
  "state (handleAppraisal (\<lambda>ident cur. None) sampleParse (\<lambda>p. Finite 50000) ''id-1'' ''30/1/2024''
            ((initialApp Map.empty)\<lparr> identity := Some sampleIdentity, purchasePrice := ''50000'' \<rparr>))
       = ERROR
   \<and> error (handleAppraisal (\<lambda>ident cur. None) sampleParse (\<lambda>p. Finite 50000) ''id-1'' ''30/1/2024''
            ((initialApp Map.empty)\<lparr> identity := Some sampleIdentity, purchasePrice := ''50000'' \<rparr>))
       = Some marketErrorMessage
   \<and> state (handleAppraisal sampleValuate sampleParse (\<lambda>p. Finite 50000)
            ''id-1'' ''30/1/2024''
            ((initialApp Map.empty)\<lparr> identity := Some sampleIdentity, purchasePrice := ''50000'' \<rparr>))
       = REPORT_READY"
proof -
  let ?s = "(initialApp Map.empty)\<lparr> identity := Some sampleIdentity, purchasePrice := ''50000'' \<rparr>"
  have 1: "identity ?s = Some sampleIdentity" by (simp add: initialApp_def)
  have 2: "purchasePrice ?s \<noteq> []" by (simp add: initialApp_def)
  have 3: "parsedResponse (\<lambda>ident cur. None) sampleParse sampleIdentity (currency ?s) = None"
    by (simp add: parsedResponse_def)
  have 4: "parsedResponse sampleValuate sampleParse sampleIdentity (currency ?s)
             \<noteq> None"
    by (simp add: parsedResponse_def sampleValuate_def sampleParse_def sampleResponse_def)
  from valuation_failure
    [where gw = "\<lambda>ident cur. None" and parse = sampleParse and parseFloat = "\<lambda>p. Finite 50000"
       and uuid = "''id-1''" and today = "''30/1/2024''", OF 1 2]
    valuation_failure
    [where gw = sampleValuate and parse = sampleParse
       and parseFloat = "\<lambda>p. Finite 50000" and uuid = "''id-1''" and today = "''30/1/2024''", OF 1 2]
    3 4
  show ?thesis by simp
qed

text \<open>
  Claim C8 as stated fails: parsed data that has only \<open>averagePrice\<close> and \<open>currency\<close>
  lacks five of the required fields, and the appraisal ends in \<open>REPORT_READY\<close> without
  an error, with a report built from that data.
\<close>

theorem missing_fields_counterexample:
  "missesRequired sampleData
   \<and> state (handleAppraisal sampleValuate sampleParse (\<lambda>p. Finite 50000)
            ''id-1'' ''30/1/2024''
            ((initialApp Map.empty)\<lparr> identity := Some sampleIdentity, purchasePrice := ''50000'' \<rparr>))
       = REPORT_READY
   \<and> error (handleAppraisal sampleValuate sampleParse (\<lambda>p. Finite 50000)
            ''id-1'' ''30/1/2024''
            ((initialApp Map.empty)\<lparr> identity := Some sampleIdentity, purchasePrice := ''50000'' \<rparr>))
       = None
   \<and> map_option report_marketData
        (report (handleAppraisal sampleValuate sampleParse (\<lambda>p. Finite 50000)
            ''id-1'' ''30/1/2024''
            ((initialApp Map.empty)\<lparr> identity := Some sampleIdentity, purchasePrice := ''50000'' \<rparr>)))
       = Some (JObj [(''averagePrice'', JNum (Finite 60000)), (''currency'', JStr ''HKD''),
               (''sources'', JArr
                 [JObj [(''title'', JStr ''a''), (''uri'', JStr ''https://a'')],
                  JObj [(''title'', JStr ''b''), (''uri'', JStr ''https://b'')],
                  JObj [(''title'', JStr ''c''), (''uri'', JStr ''https://c'')],
                  JObj [(''title'', JStr ''d''), (''uri'', JStr ''https://d'')],
                  JObj [(''title'', JStr ''e''), (''uri'', JStr ''https://e'')]])])"
  by (simp add: missesRequired_def requiredFields_def handleAppraisal_def initialApp_def
      getMarketValuation_def sampleValuate_def sampleParse_def sampleResponse_def sampleData_def
      sources_def chunkSource_def sampleSource_def spread_def setProp_def)

section \<open>A run of the workflow\<close>

text \<open>
  From the initial state: two images are uploaded, the gateway names the second one as
  the cover, a price is entered, and the valuation succeeds. The images are swapped, the
  report carries them in that order, and each gateway was called once.
\<close>

lemma workflow_run:
  "state (handleImageUpload (sampleIdentify ''1'') sampleParseIdentity JStr
            (Some [''data:,a'', ''data:,b'']) (initialApp Map.empty)) = IDENTITY_CONFIRMED
   \<and> images (handleImageUpload (sampleIdentify ''1'') sampleParseIdentity JStr
            (Some [''data:,a'', ''data:,b'']) (initialApp Map.empty))
       = [JStr ''data:,b'', JStr ''data:,a'']
   \<and> identifyCalls (handleImageUpload (sampleIdentify ''1'') sampleParseIdentity JStr
            (Some [''data:,a'', ''data:,b'']) (initialApp Map.empty))
       = [[JStr ''a'', JStr ''b'']]
   \<and> state (handleAppraisal sampleValuate sampleParse (\<lambda>p. Finite 50000) ''id-1'' ''30/1/2024''
        ((handleImageUpload (sampleIdentify ''1'') sampleParseIdentity JStr
            (Some [''data:,a'', ''data:,b'']) (initialApp Map.empty))\<lparr> purchasePrice := ''50000'' \<rparr>))
       = REPORT_READY
   \<and> map_option report_imageUrls
        (report (handleAppraisal sampleValuate sampleParse (\<lambda>p. Finite 50000) ''id-1'' ''30/1/2024''
          ((handleImageUpload (sampleIdentify ''1'') sampleParseIdentity JStr
            (Some [''data:,a'', ''data:,b'']) (initialApp Map.empty))\<lparr> purchasePrice := ''50000'' \<rparr>)))
       = Some [JStr ''data:,b'', JStr ''data:,a'']
   \<and> valuationCalls (handleAppraisal sampleValuate sampleParse (\<lambda>p. Finite 50000) ''id-1'' ''30/1/2024''
        ((handleImageUpload (sampleIdentify ''1'') sampleParseIdentity JStr
            (Some [''data:,a'', ''data:,b'']) (initialApp Map.empty))\<lparr> purchasePrice := ''50000'' \<rparr>))
       = [(sampleIdentity, ''HKD'')]"
proof -
  have up: "handleImageUpload (sampleIdentify ''1'') sampleParseIdentity JStr
              (Some [''data:,a'', ''data:,b'']) (initialApp Map.empty)
            = (initialApp Map.empty)\<lparr> images := [JStr ''data:,b'', JStr ''data:,a''],
                identifyCalls := [[JStr ''a'', JStr ''b'']], identity := Some sampleIdentity,
                state := IDENTITY_CONFIRMED \<rparr>"
    by (simp add: handleImageUpload_def analyzeImage_def sample_identification sortedImages_def
        otherImages_def indexDiffers_def sampleIdentity_def initialApp_def)
  have val: "getMarketValuation sampleValuate sampleParse sampleIdentity (Finite 50000) (Some ''HKD'')
               \<noteq> Inl marketErrorMessage"
    by (simp add: getMarketValuation_def sampleValuate_def sampleParse_def sampleResponse_def)
  show ?thesis
    unfolding up using val
    by (simp add: handleAppraisal_def initialApp_def getMarketValuation_def sampleValuate_def
        sampleParse_def sampleResponse_def)
qed

end
